theory Spec2Isabelle
  imports Complex_Main "HOL-Library.Multiset" "HOL-Library.Product_Lexorder"
    "HOL-Library.Log_Nat"
begin

section \<open>Numbers and strings of the source language\<close>

text \<open>
  A TypeScript \<open>number\<close> is modelled as a real number (the rounding of doubles is left
  out). The one value that is no real and that the code can produce, by doing arithmetic
  on a property that is absent (\<open>undefined\<close>), is \<open>NaN\<close>; where a number can be
  \<open>NaN\<close> the type \<open>number\<close> below is used. A property that may be absent is an
  \<open>option\<close>.
\<close>

datatype number = NaN | Num real

text \<open>\<open>Math.round\<close>: the nearest integer, a tie going towards plus infinity.\<close>

definition Math_round :: "real \<Rightarrow> real" where
  "Math_round x = of_int \<lfloor>x + 1 / 2\<rfloor>"

text \<open>Truthiness of an optional string: absent and the empty string are both falsy.\<close>

definition truthy :: "string option \<Rightarrow> bool" where
  "truthy s = (case s of None \<Rightarrow> False | Some v \<Rightarrow> v \<noteq> [])"

section \<open>Data model\<close>

text \<open>
  The type declarations (\<open>types.ts\<close>) are not among the sources; the records below carry
  the fields that the code reads and writes. \<open>computeStats\<close> builds the object
  \<open>{ min, max, median, avg }\<close>, and \<open>computeTimingScore\<close> reads \<open>median\<close>,
  \<open>p95\<close>, \<open>p99\<close>, \<open>min\<close> and \<open>max\<close>: \<open>p95\<close> and \<open>p99\<close> are therefore
  properties that may be absent.
\<close>

record Stats =
  min_ms :: real
  max_ms :: real
  median :: real
  avg :: real
  p95 :: "real option"
  p99 :: "real option"

record TimingResult =
  ttiMs :: real
  workloadMs :: "real option"
  totalMs :: "real option"
  error :: "string option"

record Summary =
  sum_ttiMs :: Stats
  sum_workloadMs :: "Stats option"
  sum_totalMs :: "Stats option"

record BenchmarkResult =
  provider :: string
  iterations :: "TimingResult list"
  summary :: Summary
  skipped :: bool
  skipReason :: "string option"
  successRate :: "real option"
  compositeScore :: "number option"

record ScoringWeights =
  w_median :: real
  w_p95 :: real
  w_p99 :: real
  w_min :: real
  w_max :: real

section \<open>Statistics (benchmark.ts)\<close>

text \<open>
  \<open>[...values].sort((a, b) => a - b)\<close> is the ascending numeric sort. The indices read
  are in range: the list is not empty, and \<open>mid - 1\<close> is read only when the length is
  even, hence at least 2.
\<close>

definition computeStats :: "real list \<Rightarrow> Stats" where
  "computeStats values =
     (if length values = 0
      then \<lparr>min_ms = 0, max_ms = 0, median = 0, avg = 0, p95 = None, p99 = None\<rparr>
      else
        let sorted = sort values;
            mid = length sorted div 2;
            med = (if length sorted mod 2 = 0
                   then (sorted ! (mid - 1) + sorted ! mid) / 2
                   else sorted ! mid)
        in \<lparr>min_ms = sorted ! 0,
            max_ms = sorted ! (length sorted - 1),
            median = med,
            avg = foldl (+) 0 values / real (length values),
            p95 = None, p99 = None\<rparr>)"

text \<open>
  \<open>runBenchmark\<close> after its loop: the result built from the samples collected. Only
  the result of a provider without a successful sample (or without credentials) carries
  \<open>skipped\<close>; the scoring fields are filled in later.
\<close>

definition benchmarkResult :: "string \<Rightarrow> TimingResult list \<Rightarrow> BenchmarkResult" where
  "benchmarkResult providerName results =
     (let successful = filter (\<lambda>r. \<not> truthy (error r)) results
      in if length successful = 0
         then \<lparr>provider = providerName, iterations = results,
               summary = \<lparr>sum_ttiMs = \<lparr>min_ms = 0, max_ms = 0, median = 0, avg = 0,
                                       p95 = None, p99 = None\<rparr>,
                          sum_workloadMs = None, sum_totalMs = None\<rparr>,
               skipped = True, skipReason = Some ''All iterations failed'',
               successRate = None, compositeScore = None\<rparr>
         else
           let workloadValues = concat (map (\<lambda>r. case workloadMs r of None \<Rightarrow> [] | Some v \<Rightarrow> [v])
                                          successful);
               totalValues = concat (map (\<lambda>r. case totalMs r of None \<Rightarrow> [] | Some v \<Rightarrow> [v])
                                       successful)
           in \<lparr>provider = providerName, iterations = results,
               summary = \<lparr>sum_ttiMs = computeStats (map ttiMs successful),
                          sum_workloadMs = (if length workloadValues > 0
                                            then Some (computeStats workloadValues) else None),
                          sum_totalMs = (if length totalValues > 0
                                         then Some (computeStats totalValues) else None)\<rparr>,
               skipped = False, skipReason = None,
               successRate = None, compositeScore = None\<rparr>)"

section \<open>Scoring (scoring.ts)\<close>

definition DEFAULT_WEIGHTS :: ScoringWeights where
  "DEFAULT_WEIGHTS =
     \<lparr>w_median = 50 / 100, w_p95 = 20 / 100, w_p99 = 10 / 100,
      w_min = 5 / 100, w_max = 15 / 100\<rparr>"

definition CEILING_MS :: real where
  "CEILING_MS = 10000"

definition scoreMetric :: "real \<Rightarrow> real" where
  "scoreMetric valueMs = max 0 (100 * (1 - valueMs / CEILING_MS))"

definition computeSuccessRate :: "BenchmarkResult \<Rightarrow> real" where
  "computeSuccessRate result =
     (if skipped result \<or> length (iterations result) = 0 then 0
      else real (length (filter (\<lambda>i. \<not> truthy (error i)) (iterations result)))
           / real (length (iterations result)))"

text \<open>
  \<open>scoreMetric(undefined)\<close> is \<open>Math.max(0, NaN) = NaN\<close>, and a sum with a \<open>NaN\<close>
  term is \<open>NaN\<close>, whatever the weights.
\<close>

definition computeTimingScore :: "Stats \<Rightarrow> ScoringWeights \<Rightarrow> number" where
  "computeTimingScore stats weights =
     (case (p95 stats, p99 stats) of
        (Some v95, Some v99) \<Rightarrow>
          Num (w_median weights * scoreMetric (median stats) +
               w_p95 weights * scoreMetric v95 +
               w_p99 weights * scoreMetric v99 +
               w_min weights * scoreMetric (min_ms stats) +
               w_max weights * scoreMetric (max_ms stats))
      | _ \<Rightarrow> NaN)"

text \<open>The body of the loop of \<open>computeCompositeScores\<close>, for one result.\<close>

definition scoreResult :: "ScoringWeights \<Rightarrow> BenchmarkResult \<Rightarrow> BenchmarkResult" where
  "scoreResult weights result =
     (let rate = computeSuccessRate result;
          result1 = result\<lparr>successRate := Some rate\<rparr>
      in if skipped result1 \<or> rate = 0
         then result1\<lparr>compositeScore := Some (Num 0)\<rparr>
         else (case computeTimingScore (sum_ttiMs (summary result1)) weights of
                 NaN \<Rightarrow> result1\<lparr>compositeScore := Some NaN\<rparr>
               | Num timingScore \<Rightarrow>
                   result1\<lparr>compositeScore :=
                     Some (Num (Math_round (timingScore * rate * 100) / 100))\<rparr>))"

definition computeCompositeScores ::
  "BenchmarkResult list \<Rightarrow> ScoringWeights \<Rightarrow> BenchmarkResult list" where
  "computeCompositeScores results weights = map (scoreResult weights) results"









section \<open>Text of the event stream (islo provider)\<close>

text \<open>
  A JavaScript string is a sequence of code units; here the code units are the
  \<open>char\<close>s of HOL, which covers the code units below 256. Everything the parser
  looks at (line breaks, the field names, white space, digits, signs) lies there.
\<close>

definition LF :: char where
  "LF = CHR 0x0A"

definition CR :: char where
  "CR = CHR 0x0D"

text \<open>White space and line terminators of the language, among the code units below 256.\<close>

definition isWhiteSpace :: "char \<Rightarrow> bool" where
  "isWhiteSpace c = (c \<in> {CHR 0x09, CHR 0x0A, CHR 0x0B, CHR 0x0C, CHR 0x0D, CHR 0x20, CHR 0xA0})"

definition trimStart :: "string \<Rightarrow> string" where
  "trimStart s = dropWhile isWhiteSpace s"

definition trimEnd :: "string \<Rightarrow> string" where
  "trimEnd s = rev (dropWhile isWhiteSpace (rev s))"

definition trim :: "string \<Rightarrow> string" where
  "trim s = trimStart (trimEnd s)"

definition startsWith :: "string \<Rightarrow> string \<Rightarrow> bool" where
  "startsWith s p = (take (length p) s = p)"

definition endsWith :: "string \<Rightarrow> string \<Rightarrow> bool" where
  "endsWith s p = (length p \<le> length s \<and> drop (length s - length p) s = p)"

fun join :: "string list \<Rightarrow> string \<Rightarrow> string" where
  "join [] sep = []"
| "join [x] sep = x"
| "join (x # y # ys) sep = x @ sep @ join (y # ys) sep"

fun indexOf :: "'a list \<Rightarrow> 'a \<Rightarrow> nat option" where
  "indexOf [] c = None"
| "indexOf (x # xs) c = (if x = c then Some 0 else map_option Suc (indexOf xs c))"

text \<open>
  \<open>value.slice(0, e)\<close>: a negative end counts from the end of the string.
\<close>

definition slice0 :: "string \<Rightarrow> int \<Rightarrow> string" where
  "slice0 s e = (if e < 0 then take (nat (int (length s) + e)) s else take (nat e) s)"

definition isDigit :: "char \<Rightarrow> bool" where
  "isDigit c = (48 \<le> (of_char c :: nat) \<and> (of_char c :: nat) \<le> 57)"

definition digitValue :: "char \<Rightarrow> int" where
  "digitValue c = of_char c - 48"

definition digitsValue :: "string \<Rightarrow> int" where
  "digitsValue ds = foldl (\<lambda>n c. 10 * n + digitValue c) 0 ds"

text \<open>
  The Number value of a non-negative integer: the nearest double, a tie going to the even
  significand. An integer of at most 53 bits is a double. A longer one keeps its leading
  53 bits, rounded; when the rounded value reaches \<open>2 ^ 1024\<close> the Number value is
  \<open>Infinity\<close> (\<open>None\<close>). \<open>bitlen\<close> is the number of binary digits.
\<close>

definition roundToDouble :: "int \<Rightarrow> int option" where
  "roundToDouble n =
     (if bitlen n \<le> 53 then Some n
      else
        let shift = nat (bitlen n - 53);
            q = n div 2 ^ shift;
            r = n mod 2 ^ shift;
            half = 2 ^ (shift - 1);
            m = (if r > half \<or> (r = half \<and> odd q) then q + 1 else q)
        in if m * 2 ^ shift \<ge> 2 ^ 1024 then None else Some (m * 2 ^ shift))"

text \<open>
  \<open>parseInt(s, 10)\<close> followed by \<open>Number.isInteger\<close>: leading white space is skipped,
  one sign is read, then the longest run of decimal digits; with no digit the result is
  \<open>NaN\<close>, which is no integer (\<open>None\<close>). Whatever follows the digits is ignored.
  The digits denote an integer, and the result is its Number value: a double, hence
  rounded beyond 53 bits, and \<open>Infinity\<close>, which is no integer either, for a run of
  digits too long for a double.
\<close>

definition parseInt :: "string \<Rightarrow> int option" where
  "parseInt s =
     (let t = trimStart s;
          negative = (t \<noteq> [] \<and> hd t = CHR ''-'');
          u = (if t \<noteq> [] \<and> (hd t = CHR ''+'' \<or> hd t = CHR ''-'') then tl t else t);
          z = takeWhile isDigit u
      in if z = [] then None
         else (case roundToDouble (digitsValue z) of
                 None \<Rightarrow> None
               | Some v \<Rightarrow> Some (if negative then - v else v)))"

text \<open>The decimal digits of a non-negative integer.\<close>

function decimal :: "int \<Rightarrow> string" where
  "decimal n = (if n < 10 then [char_of (48 + n)]
                else decimal (n div 10) @ [char_of (48 + n mod 10)])"
  by pat_completeness auto
termination
  by (relation "measure nat") auto

declare decimal.simps [simp del]

text \<open>
  The text of a number in a template literal (\<open>Number::toString\<close>), for a double that is
  an integer. The digits printed are those of the integer with the fewest significant
  digits whose Number value is the double: \<open>candidate x k\<close> looks for one with \<open>k\<close>
  significant digits among the two neighbours of \<open>x\<close> (when both qualify, the closer one,
  and the one with the even last digit at equal distance), and \<open>shortest\<close> tries \<open>k = 1\<close>,
  then 2, and so on up to the number of digits of \<open>x\<close>, where \<open>x\<close> itself qualifies.
  Up to 21 digits the integer found is printed in full; a longer one is printed as its
  significant digits, a point after the first, and the exponent.
\<close>

definition candidate :: "int \<Rightarrow> nat \<Rightarrow> int option" where
  "candidate x k =
     (let p = length (decimal x) - k;
          lo = (x div 10 ^ p) * 10 ^ p;
          hi = lo + 10 ^ p;
          okLo = (roundToDouble lo = Some x);
          okHi = (roundToDouble hi = Some x)
      in if okLo \<and> okHi
         then (if x - lo < hi - x then Some lo
               else if hi - x < x - lo then Some hi
               else if even (x div 10 ^ p) then Some lo else Some hi)
         else if okLo then Some lo
         else if okHi then Some hi
         else None)"

fun shortest :: "int \<Rightarrow> nat \<Rightarrow> nat \<Rightarrow> int" where
  "shortest x k 0 = x"
| "shortest x k (Suc fuel) =
     (case candidate x k of Some v \<Rightarrow> v | None \<Rightarrow> shortest x (Suc k) fuel)"

definition formatDigits :: "int \<Rightarrow> string" where
  "formatDigits v =
     (let ds = decimal v; n = length ds
      in if n \<le> 21 then ds
         else
           let sig = rev (dropWhile (\<lambda>c. c = CHR ''0'') (rev ds))
           in (if length sig = 1 then sig else hd sig # CHR ''.'' # tl sig)
              @ ''e+'' @ decimal (int n - 1))"

definition numberText :: "int \<Rightarrow> string" where
  "numberText i =
     (let x = \<bar>i\<bar>; t = formatDigits (shortest x 1 (length (decimal x)))
      in if i < 0 then CHR ''-'' # t else t)"

datatype error = Error string

section \<open>Assembling a command result from the event stream (parseSseResult)\<close>

record IsloCommandResult =
  stdout :: string
  stderr :: string
  exitCode :: int

text \<open>The variables of \<open>parseSseResult\<close> that the two closures read and write.\<close>

record ParseState =
  acc_stdout :: string
  acc_stderr :: string
  acc_exitCode :: "int option"
  pendingError :: "string option"
  currentEvent :: string
  dataLines :: "string list"

definition initialState :: ParseState where
  "initialState =
     \<lparr>acc_stdout = [], acc_stderr = [], acc_exitCode = None, pendingError = None,
      currentEvent = ''message'', dataLines = []\<rparr>"

text \<open>The \<open>switch\<close> of \<open>emitEvent\<close>: folding one event into the accumulators.\<close>

definition applyEvent :: "string \<Rightarrow> string \<Rightarrow> ParseState \<Rightarrow> ParseState" where
  "applyEvent event payload st =
     (if event = ''stdout'' then st\<lparr>acc_stdout := acc_stdout st @ payload\<rparr>
      else if event = ''stderr'' then st\<lparr>acc_stderr := acc_stderr st @ payload\<rparr>
      else if event = ''exit'' then
        (case parseInt payload of
           Some parsed \<Rightarrow> st\<lparr>acc_exitCode := Some parsed\<rparr>
         | None \<Rightarrow> st)
      else if event = ''error'' then
        st\<lparr>pendingError :=
             Some (if truthy (pendingError st)
                   then the (pendingError st) @ [LF] @ payload
                   else payload)\<rparr>
      else st)"

definition emitEvent :: "ParseState \<Rightarrow> ParseState" where
  "emitEvent st =
     (if length (dataLines st) = 0 then st\<lparr>currentEvent := ''message''\<rparr>
      else
        let payload = join (dataLines st) [LF]
        in (applyEvent (currentEvent st) payload st)
             \<lparr>currentEvent := ''message'', dataLines := []\<rparr>)"

text \<open>The first statement of \<open>handleLine\<close>: one trailing carriage return is dropped.\<close>

definition stripCR :: "string \<Rightarrow> string" where
  "stripCR rawLine = (if endsWith rawLine [CR] then slice0 rawLine (- 1) else rawLine)"

definition handleLine :: "string \<Rightarrow> ParseState \<Rightarrow> ParseState" where
  "handleLine rawLine st =
     (let line = stripCR rawLine
      in if line = [] then emitEvent st
         else if startsWith line '':'' then st
         else if startsWith line ''event:'' then st\<lparr>currentEvent := trim (drop 6 line)\<rparr>
         else if startsWith line ''data:''
           then st\<lparr>dataLines := dataLines st @ [trimStart (drop 5 line)]\<rparr>
         else st)"

text \<open>
  The \<open>TextDecoder\<close> is the platform's: a streaming decoder, which consumes the bytes of
  a chunk one after the other, keeps what it needs of an unfinished character in its own
  state, and gives the text decoded so far. It is a parameter here: \<open>step\<close> consumes one
  byte, \<open>flush\<close> is the final \<open>decode()\<close> without input.
\<close>

fun decode :: "('d \<Rightarrow> 'b \<Rightarrow> 'd \<times> string) \<Rightarrow> 'd \<Rightarrow> 'b list \<Rightarrow> 'd \<times> string" where
  "decode step d [] = (d, [])"
| "decode step d (b # bs) =
     (let (d1, out1) = step d b;
          (d2, out2) = decode step d1 bs
      in (d2, out1 @ out2))"

text \<open>
  The inner loop: while the buffer holds a line break, cut the first line off and hand it
  to the line handler \<open>h\<close> (in \<open>parseSseResult\<close>, the closure \<open>handleLine\<close>).
\<close>

function drainLines :: "(string \<Rightarrow> 's \<Rightarrow> 's) \<Rightarrow> string \<Rightarrow> 's \<Rightarrow> string \<times> 's" where
  "drainLines h buffer st =
     (case indexOf buffer LF of
        None \<Rightarrow> (buffer, st)
      | Some newlineIndex \<Rightarrow>
          drainLines h (drop (newlineIndex + 1) buffer) (h (take newlineIndex buffer) st))"
  by pat_completeness auto
termination
proof (relation "measure (\<lambda>(h, buffer, st). length buffer)")
  show "wf (measure (\<lambda>(h :: string \<Rightarrow> 's \<Rightarrow> 's, buffer :: string, st :: 's). length buffer))"
    by simp
next
  fix h :: "string \<Rightarrow> 's \<Rightarrow> 's" and buffer :: string and st :: 's and newlineIndex :: nat
  assume "indexOf buffer LF = Some newlineIndex"
  then have "newlineIndex < length buffer"
    by (induction buffer arbitrary: newlineIndex) (auto split: if_splits)
  then show "((h, drop (newlineIndex + 1) buffer, h (take newlineIndex buffer) st), (h, buffer, st))
      \<in> measure (\<lambda>(h, buffer, st). length buffer)"
    by simp
qed

declare drainLines.simps [simp del]

text \<open>The outer loop, over the chunks that \<open>reader.read()\<close> delivers until \<open>done\<close>.\<close>

fun readLoop ::
  "('d \<Rightarrow> 'b \<Rightarrow> 'd \<times> string) \<Rightarrow> (string \<Rightarrow> 's \<Rightarrow> 's) \<Rightarrow> 'b list list \<Rightarrow>
   'd \<times> string \<times> 's \<Rightarrow> 'd \<times> string \<times> 's" where
  "readLoop step h [] (d, buffer, st) = (d, buffer, st)"
| "readLoop step h (chunk # rest) (d, buffer, st) =
     (let (d1, text) = decode step d chunk;
          (buffer1, st1) = drainLines h (buffer @ text) st
      in readLoop step h rest (d1, buffer1, st1))"

text \<open>The loops and the flush after them: every line of the stream goes through \<open>h\<close>.\<close>

definition feedLines ::
  "('d \<Rightarrow> 'b \<Rightarrow> 'd \<times> string) \<Rightarrow> ('d \<Rightarrow> string) \<Rightarrow> 'd \<Rightarrow> (string \<Rightarrow> 's \<Rightarrow> 's) \<Rightarrow>
   'b list list \<Rightarrow> 's \<Rightarrow> 's" where
  "feedLines step flush d0 h chunks st0 =
     (let (d, buffer, st) = readLoop step h chunks (d0, [], st0);
          buffer1 = buffer @ flush d
      in if length buffer1 > 0 then h buffer1 st else st)"

text \<open>The end of \<open>parseSseResult\<close>, from the final state of its variables.\<close>

definition finishResult :: "ParseState \<Rightarrow> error + IsloCommandResult" where
  "finishResult st =
     (if truthy (pendingError st)
      then Inl (Error (''ISLO exec stream error: '' @ the (pendingError st)))
      else (case acc_exitCode st of
              None \<Rightarrow> Inl (Error ''ISLO exec stream ended without exit event'')
            | Some code \<Rightarrow>
                Inr \<lparr>stdout = acc_stdout st, stderr = acc_stderr st, exitCode = code\<rparr>))"

definition parseSseResult ::
  "('d \<Rightarrow> 'b \<Rightarrow> 'd \<times> string) \<Rightarrow> ('d \<Rightarrow> string) \<Rightarrow> 'd \<Rightarrow> 'b list list \<Rightarrow>
   error + IsloCommandResult" where
  "parseSseResult step flush d0 chunks =
     finishResult (emitEvent (feedLines step flush d0 handleLine chunks initialState))"

text \<open>
  The sequence of lines that the loops hand to the line handler: the same loops, with a
  handler that records its argument.
\<close>

definition decodedLines ::
  "('d \<Rightarrow> 'b \<Rightarrow> 'd \<times> string) \<Rightarrow> ('d \<Rightarrow> string) \<Rightarrow> 'd \<Rightarrow> 'b list list \<Rightarrow> string list" where
  "decodedLines step flush d0 chunks =
     feedLines step flush d0 (\<lambda>line acc. acc @ [line]) chunks []"

text \<open>Assembly from a sequence of decoded lines: each line handled in turn.\<close>

definition assembleLines :: "string list \<Rightarrow> error + IsloCommandResult" where
  "assembleLines ls = finishResult (emitEvent (foldl (\<lambda>st line. handleLine line st) initialState ls))"

text \<open>
  The events of a line sequence. The code keeps no list of them: an event is what
  \<open>emitEvent\<close> folds into the accumulators, namely the pending event type and the joined
  data lines, when at least one data line is buffered. \<open>emittedEvents\<close> collects them
  along the lines, the last one from the \<open>emitEvent()\<close> after the end of the stream.
\<close>

definition pendingRecord :: "ParseState \<Rightarrow> (string \<times> string) list" where
  "pendingRecord st =
     (if length (dataLines st) = 0 then [] else [(currentEvent st, join (dataLines st) [LF])])"

fun emittedEvents :: "string list \<Rightarrow> ParseState \<Rightarrow> (string \<times> string) list" where
  "emittedEvents [] st = pendingRecord st"
| "emittedEvents (rawLine # rest) st =
     (if stripCR rawLine = [] then pendingRecord st else []) @
     emittedEvents rest (handleLine rawLine st)"

definition foldEvents :: "(string \<times> string) list \<Rightarrow> ParseState \<Rightarrow> ParseState" where
  "foldEvents evs st = foldl (\<lambda>s ev. applyEvent (fst ev) (snd ev) s) st evs"

text \<open>What a sequence of events accumulates, in the words of the specification.\<close>

definition accumulated :: "string \<Rightarrow> (string \<times> string) list \<Rightarrow> string" where
  "accumulated event evs = concat (map snd (filter (\<lambda>ev. fst ev = event) evs))"

definition errorPayloads :: "(string \<times> string) list \<Rightarrow> string list" where
  "errorPayloads evs = map snd (filter (\<lambda>ev. fst ev = ''error'') evs)"

definition exitStep :: "int option \<Rightarrow> string \<times> string \<Rightarrow> int option" where
  "exitStep acc ev =
     (if fst ev = ''exit''
      then (case parseInt (snd ev) of Some n \<Rightarrow> Some n | None \<Rightarrow> acc)
      else acc)"

definition recordedExit :: "(string \<times> string) list \<Rightarrow> int option" where
  "recordedExit evs = foldl exitStep None evs"

text \<open>
  The specification's words for a data line: the remainder after \<open>data:\<close> with at most
  one leading space stripped. (The code strips with \<open>trimStart\<close>.)
\<close>

definition spec_stripOneSpace :: "string \<Rightarrow> string" where
  "spec_stripOneSpace s = (if s \<noteq> [] \<and> hd s = CHR '' '' then tl s else s)"

text \<open>
  A decoder for witnesses: every byte is one character (ASCII), nothing is held back.
\<close>

definition asciiStep :: "unit \<Rightarrow> char \<Rightarrow> unit \<times> string" where
  "asciiStep d b = (d, [b])"

definition asciiFlush :: "unit \<Rightarrow> string" where
  "asciiFlush d = []"

definition streamBytes :: "string list \<Rightarrow> string" where
  "streamBytes ls = concat (map (\<lambda>l. l @ [LF]) ls)"

section \<open>One benchmark iteration (benchmark.ts)\<close>

text \<open>
  An asynchronous operation, seen from the race against its timer: it has resolved, it
  has rejected, or it is still pending when the timer fires.
\<close>

datatype 'a outcome = Resolved 'a | Rejected error | Pending

definition withTimeout :: "'a outcome \<Rightarrow> real \<Rightarrow> string \<Rightarrow> error + 'a" where
  "withTimeout promise ms message =
     (case promise of
        Resolved v \<Rightarrow> Inr v
      | Rejected e \<Rightarrow> Inl e
      | Pending \<Rightarrow> Inl (Error message))"

text \<open>
  The result of \<open>sandbox.runCommand\<close>; the code reads \<open>stderr\<close> and \<open>stdout\<close> with
  \<open>?.\<close>, so they may be absent.
\<close>

record RunResult =
  r_stdout :: "string option"
  r_stderr :: "string option"
  r_exitCode :: int

definition truncate_str :: "string \<Rightarrow> int \<Rightarrow> string" where
  "truncate_str v maxLength =
     (if int (length v) \<le> maxLength then v else slice0 v (maxLength - 3) @ ''...'')"

text \<open>
  \<open>runCheckedCommand\<close>, as a function of what \<open>sandbox.runCommand\<close> gives: a rejection
  and a pending call stay what they are.
\<close>

definition runCheckedCommand :: "RunResult outcome \<Rightarrow> string \<Rightarrow> unit outcome" where
  "runCheckedCommand commandRun failurePrefix =
     (case commandRun of
        Resolved result \<Rightarrow>
          if r_exitCode result \<noteq> 0 then
            let stderr1 = map_option trim (r_stderr result);
                stdout1 = map_option trim (r_stdout result);
                detail = (if truthy stderr1 then stderr1 else stdout1)
            in if truthy detail
               then Rejected (Error (failurePrefix @ '' (exit '' @ numberText (r_exitCode result)
                                     @ ''): '' @ truncate_str (the detail) 220))
               else Rejected (Error (failurePrefix @ '' (exit '' @ numberText (r_exitCode result)
                                     @ '')''))
          else Resolved ()
      | Rejected e \<Rightarrow> Rejected e
      | Pending \<Rightarrow> Pending)"

definition msToSeconds :: "real \<Rightarrow> real" where
  "msToSeconds ms = max 1 (of_int \<lceil>ms / 1000\<rceil>)"

record WorkloadConfig =
  name :: string
  setupCommand :: "string option"
  command :: "string option"
  cwd :: "string option"
  timeoutMs :: "real option"

text \<open>
  The calls that leave the iteration, in order: the creation with the deadline of its
  race; a command with its working directory (passed on only when truthy), the timeout in
  seconds given to the provider and the deadline of the race; the destruction with the
  deadline of its race.
\<close>

datatype call =
  Create real
| RunCommand string "string option" real real
| Destroy real

text \<open>
  The world of one iteration: what the provider's operations do and what the clock
  shows. \<open>runOutcome k\<close> belongs to the \<open>k\<close>-th call of \<open>runCommand\<close>, \<open>now k\<close> to the
  \<open>k\<close>-th reading of \<open>performance.now()\<close>, both counted from 0. A created sandbox is an
  object, hence truthy.
\<close>

record 'sb World =
  createOutcome :: "'sb outcome"
  runOutcome :: "nat \<Rightarrow> RunResult outcome"
  destroyOutcome :: "unit outcome"
  now :: "nat \<Rightarrow> real"

definition SMOKE_COMMAND :: string where
  "SMOKE_COMMAND = ''echo '' @ [CHR 0x22] @ ''benchmark'' @ [CHR 0x22]"

definition commandCall :: "string \<Rightarrow> string option \<Rightarrow> real \<Rightarrow> real \<Rightarrow> call" where
  "commandCall cmd dir timeoutSeconds deadline =
     RunCommand cmd (if truthy dir then dir else None) timeoutSeconds deadline"

text \<open>
  The optional workload: \<open>workload?.setupCommand\<close>, \<open>workload?.command\<close>,
  \<open>workload.cwd\<close> and \<open>workload?.timeoutMs ?? 300_000\<close>.
\<close>

definition setupCommandOf :: "WorkloadConfig option \<Rightarrow> string option" where
  "setupCommandOf workload = (case workload of None \<Rightarrow> None | Some wl \<Rightarrow> setupCommand wl)"

definition commandOf :: "WorkloadConfig option \<Rightarrow> string option" where
  "commandOf workload = (case workload of None \<Rightarrow> None | Some wl \<Rightarrow> command wl)"

definition cwdOf :: "WorkloadConfig option \<Rightarrow> string option" where
  "cwdOf workload = (case workload of None \<Rightarrow> None | Some wl \<Rightarrow> cwd wl)"

definition workloadTimeout :: "WorkloadConfig option \<Rightarrow> real" where
  "workloadTimeout workload =
     (case workload of
        None \<Rightarrow> 300000
      | Some wl \<Rightarrow> (case timeoutMs wl of None \<Rightarrow> 300000 | Some t \<Rightarrow> t))"

text \<open>
  The \<open>try\<close> block of \<open>runIteration\<close>: its outcome (a sample, or the error thrown), the
  variable \<open>sandbox\<close> when the block is left, and the calls made.
\<close>

definition tryBlock ::
  "'sb World \<Rightarrow> real \<Rightarrow> WorkloadConfig option \<Rightarrow>
   (error + TimingResult) \<times> 'sb option \<times> call list" where
  "tryBlock w timeout workload =
     (let workloadTimeoutMs = workloadTimeout workload;
          setupCmd = setupCommandOf workload;
          cmd = commandOf workload;
          dir = cwdOf workload;
          start = now w 0;
          calls0 = [Create timeout]
      in case withTimeout (createOutcome w) timeout ''Sandbox creation timed out'' of
           Inl e \<Rightarrow> (Inl e, None, calls0)
         | Inr sandbox \<Rightarrow>
             let calls1 = calls0 @ [commandCall SMOKE_COMMAND None 30 30000]
             in case withTimeout
                       (runCheckedCommand (runOutcome w 0) ''First command execution failed'')
                       30000 ''First command execution timed out'' of
                  Inl e \<Rightarrow> (Inl e, Some sandbox, calls1)
                | Inr _ \<Rightarrow>
                    let tti = now w 1 - start
                    in if \<not> truthy setupCmd \<and> \<not> truthy cmd
                       then (Inr \<lparr>ttiMs = tti, workloadMs = None, totalMs = None, error = None\<rparr>,
                             Some sandbox, calls1)
                       else
                         let workloadStart = now w 2;
                             timeoutSeconds = msToSeconds workloadTimeoutMs;
                             (setupDone, calls2, k) =
                               (if truthy setupCmd
                                then (withTimeout
                                        (runCheckedCommand (runOutcome w 1) ''Workload setup failed'')
                                        workloadTimeoutMs ''Workload setup timed out'',
                                      calls1 @ [commandCall (the setupCmd) dir timeoutSeconds
                                                  workloadTimeoutMs],
                                      2)
                                else (Inr (), calls1, 1))
                         in case setupDone of
                              Inl e \<Rightarrow> (Inl e, Some sandbox, calls2)
                            | Inr _ \<Rightarrow>
                                let (commandDone, calls3) =
                                      (if truthy cmd
                                       then (withTimeout
                                               (runCheckedCommand (runOutcome w k)
                                                  ''Workload command failed'')
                                               workloadTimeoutMs ''Workload command timed out'',
                                             calls2 @ [commandCall (the cmd) dir timeoutSeconds
                                                         workloadTimeoutMs])
                                       else (Inr (), calls2))
                                in case commandDone of
                                     Inl e \<Rightarrow> (Inl e, Some sandbox, calls3)
                                   | Inr _ \<Rightarrow>
                                       (Inr \<lparr>ttiMs = tti,
                                             workloadMs = Some (now w 3 - workloadStart),
                                             totalMs = Some (now w 4 - start),
                                             error = None\<rparr>,
                                        Some sandbox, calls3))"

text \<open>
  \<open>runIteration\<close>: the \<open>try\<close> block, then the \<open>finally\<close> block. When a sandbox was
  assigned, \<open>destroy\<close> is raced against a timer of 15000 ms, and whatever the race throws
  is caught by an empty \<open>catch\<close>. The outcome of the \<open>try\<close> block is what the function
  returns or throws.
\<close>

definition runIteration ::
  "'sb World \<Rightarrow> real \<Rightarrow> WorkloadConfig option \<Rightarrow> (error + TimingResult) \<times> call list" where
  "runIteration w timeout workload =
     (let (result, sandbox, calls) = tryBlock w timeout workload
      in case sandbox of
           None \<Rightarrow> (result, calls)
         | Some sb \<Rightarrow>
             (case withTimeout (destroyOutcome w) 15000 ''Destroy timeout'' of
                Inl e \<Rightarrow> (result, calls @ [Destroy 15000])
              | Inr _ \<Rightarrow> (result, calls @ [Destroy 15000])))"

fun isDestroy :: "call \<Rightarrow> bool" where
  "isDestroy (Destroy ms) = True"
| "isDestroy (Create ms) = False"
| "isDestroy (RunCommand cmd dir timeoutSeconds ms) = False"

text \<open>
  The body of the loop of \<open>runBenchmark\<close>: the sample pushed for one iteration, a thrown
  error becoming a sample with \<open>ttiMs = 0\<close> and the message.
\<close>

definition iterationSample :: "'sb World \<Rightarrow> real \<Rightarrow> WorkloadConfig option \<Rightarrow> TimingResult" where
  "iterationSample w timeout workload =
     (case fst (runIteration w timeout workload) of
        Inr sample \<Rightarrow> sample
      | Inl (Error message) \<Rightarrow>
          \<lparr>ttiMs = 0, workloadMs = None, totalMs = None, error = Some message\<rparr>)"

section \<open>Example values\<close>

definition fourSamples :: "TimingResult list" where
  "fourSamples =
     map (\<lambda>t. \<lparr>ttiMs = t, workloadMs = None, totalMs = None, error = None\<rparr>)
       [100, 200, 300, 400]"





definition errorThenExit :: "string list" where
  "errorThenExit = [''event: error'', ''data:'', [], ''event: exit'', ''data: 0'', []]"

definition outputThenExit :: "string list" where
  "outputThenExit =
     [''event: stdout'', ''data: hi'', ''data: there'', [], ''event: stderr'', ''data: oops'', [],
      ''event: exit'', ''data: 3'', []]"

definition longStderr :: string where
  "longStderr = replicate 220 (CHR ''a'') @ ''b''"

definition failedRun :: RunResult where
  "failedRun = \<lparr>r_stdout = Some ''out'', r_stderr = Some longStderr, r_exitCode = 1\<rparr>"

definition boomRun :: RunResult where
  "boomRun = \<lparr>r_stdout = Some ''out'', r_stderr = Some ''  boom  '', r_exitCode = 2\<rparr>"

definition okRun :: RunResult where
  "okRun = \<lparr>r_stdout = Some ''benchmark'', r_stderr = Some [], r_exitCode = 0\<rparr>"

definition exitOneRun :: RunResult where
  "exitOneRun = \<lparr>r_stdout = Some [], r_stderr = Some [], r_exitCode = 1\<rparr>"

definition setupOnly :: WorkloadConfig where
  "setupOnly =
     \<lparr>name = ''install'', setupCommand = Some ''npm ci'', command = None, cwd = None,
      timeoutMs = None\<rparr>"

definition calmWorld :: "unit World" where
  "calmWorld =
     \<lparr>createOutcome = Resolved (), runOutcome = (\<lambda>k. Resolved okRun),
      destroyOutcome = Rejected (Error ''gone''), now = (\<lambda>k. 100 * real k)\<rparr>"

definition setupFailsWorld :: "unit World" where
  "setupFailsWorld =
     \<lparr>createOutcome = Resolved (),
      runOutcome = (\<lambda>k. if k = 1 then Resolved exitOneRun else Resolved okRun),
      destroyOutcome = Pending, now = (\<lambda>k. 100 * real k)\<rparr>"

section \<open>Properties of the statistics and of the scoring\<close>

lemma computeStats_no_percentiles:
  "p95 (computeStats values) = None \<and> p99 (computeStats values) = None"
  by (simp add: computeStats_def Let_def)

lemma computeTimingScore_weighted_sum:
  assumes "p95 stats = Some v95" and "p99 stats = Some v99"
  shows "computeTimingScore stats weights =
           Num (w_median weights * scoreMetric (median stats) +
                w_p95 weights * scoreMetric v95 +
                w_p99 weights * scoreMetric v99 +
                w_min weights * scoreMetric (min_ms stats) +
                w_max weights * scoreMetric (max_ms stats))"
  using assms by (simp add: computeTimingScore_def)

lemma benchmarkResult_timing_NaN:
  "computeTimingScore (sum_ttiMs (summary (benchmarkResult providerName results))) weights = NaN"
  by (simp add: benchmarkResult_def Let_def computeTimingScore_def computeStats_no_percentiles)

text \<open>
  C1 (fails on the code). The claim: the timing score of a result with successful
  iterations is the weighted sum over median, p95, p99, min and max of the sorted
  successful samples. \<open>computeStats\<close>, which builds the summary of every such result,
  computes no percentile: for four successful samples of 100, 200, 300 and 400 ms the
  result of \<open>runBenchmark\<close> is not skipped, its summary has min 100, max 400, median 250
  and average 250, no \<open>p95\<close> and no \<open>p99\<close>, the timing score computed from it is
  \<open>NaN\<close>, and so is the composite score.
\<close>

theorem computeTimingScore_of_computeStats_example:
  "\<not> skipped (benchmarkResult ''p'' fourSamples) \<and>
   sum_ttiMs (summary (benchmarkResult ''p'' fourSamples)) =
     \<lparr>min_ms = 100, max_ms = 400, median = 250, avg = 250, p95 = None, p99 = None\<rparr> \<and>
   computeTimingScore (sum_ttiMs (summary (benchmarkResult ''p'' fourSamples))) DEFAULT_WEIGHTS
     = NaN \<and>
   map compositeScore (computeCompositeScores [benchmarkResult ''p'' fourSamples] DEFAULT_WEIGHTS)
     = [Some NaN]"
  by (simp add: benchmarkResult_def fourSamples_def truthy_def computeStats_def
      computeTimingScore_def computeCompositeScores_def scoreResult_def computeSuccessRate_def
      Let_def)











subsection \<open>The ranking\<close>










section \<open>Numbers as text, text as numbers\<close>

text \<open>
  The conversions at the values where a double shows: beyond 53 bits an integer is
  rounded, a run of 310 digits is \<open>Infinity\<close> and gives no integer, and a double of
  magnitude \<open>10 ^ 21\<close> or more is printed with an exponent, a smaller one with the
  shortest digits that identify it.
\<close>

lemma parseInt_small: "parseInt '' -12abc'' = Some (- 12)"
  by code_simp

lemma parseInt_rounded: "parseInt ''9007199254740993'' = Some 9007199254740992"
  by code_simp

lemma parseInt_infinite: "parseInt (replicate 310 (CHR ''9'')) = None"
  by code_simp

lemma numberText_exponent: "numberText (10 ^ 21) = ''1e+21''"
  by code_simp

lemma numberText_shortest: "numberText (2 ^ 64) = ''18446744073709552000''"
  by code_simp

section \<open>Properties of the stream decoder and of the assembler\<close>

subsection \<open>Cutting lines\<close>

lemma indexOf_less: "indexOf xs c = Some i \<Longrightarrow> i < length xs"
  by (induction xs arbitrary: i) (auto split: if_splits)

lemma indexOf_None: "indexOf xs c = None \<longleftrightarrow> c \<notin> set xs"
  by (induction xs) auto

lemma indexOf_append: "indexOf xs c = Some i \<Longrightarrow> indexOf (xs @ ys) c = Some i"
  by (induction xs arbitrary: i) (auto split: if_splits)

lemma drainLines_no_LF: "LF \<notin> set buffer \<Longrightarrow> drainLines h buffer st = (buffer, st)"
  by (subst drainLines.simps) (simp add: indexOf_None [symmetric])

lemma drainLines_append:
  "drainLines h (fst (drainLines h buffer st) @ t) (snd (drainLines h buffer st)) =
   drainLines h (buffer @ t) st"
proof (induction h buffer st rule: drainLines.induct)
  case (1 h buffer st)
  show ?case
  proof (cases "indexOf buffer LF")
    case None
    then show ?thesis by (simp add: drainLines_no_LF indexOf_None)
  next
    case (Some i)
    then have i: "i < length buffer" by (rule indexOf_less)
    have l: "drainLines h buffer st = drainLines h (drop (i + 1) buffer) (h (take i buffer) st)"
      by (subst drainLines.simps) (simp add: Some)
    have r: "drainLines h (buffer @ t) st =
             drainLines h (drop (i + 1) buffer @ t) (h (take i buffer) st)"
      using i by (subst drainLines.simps) (simp add: indexOf_append [OF Some])
    show ?thesis
      unfolding l r using "1.IH" [OF Some] .
  qed
qed

lemma drainLines_rest_no_LF: "LF \<notin> set (fst (drainLines h buffer st))"
proof (induction h buffer st rule: drainLines.induct)
  case (1 h buffer st)
  show ?case
  proof (cases "indexOf buffer LF")
    case None
    then show ?thesis by (simp add: drainLines_no_LF indexOf_None)
  next
    case (Some i)
    have "drainLines h buffer st = drainLines h (drop (i + 1) buffer) (h (take i buffer) st)"
      by (subst drainLines.simps) (simp add: Some)
    then show ?thesis using "1.IH" [OF Some] by simp
  qed
qed

lemma decode_append:
  "decode step d (a @ b) =
     (let (d1, out1) = decode step d a; (d2, out2) = decode step d1 b in (d2, out1 @ out2))"
  by (induction a arbitrary: d) (simp_all add: Let_def split: prod.splits)

lemma readLoop_drain:
  "LF \<notin> set buffer \<Longrightarrow>
   readLoop step h chunks (d, buffer, st) =
     (let (d1, text) = decode step d (concat chunks);
          (buffer1, st1) = drainLines h (buffer @ text) st
      in (d1, buffer1, st1))"
proof (induction chunks arbitrary: d buffer st)
  case Nil
  then show ?case by (simp add: drainLines_no_LF)
next
  case (Cons chunk rest)
  obtain d1 text1 where dec: "decode step d chunk = (d1, text1)" by force
  obtain b1 st1 where dr: "drainLines h (buffer @ text1) st = (b1, st1)" by force
  obtain d2 text2 where dec2: "decode step d1 (concat rest) = (d2, text2)" by force
  have "LF \<notin> set b1"
    using drainLines_rest_no_LF [of h "buffer @ text1" st] by (simp add: dr)
  then have "readLoop step h rest (d1, b1, st1) =
       (let (b2, st2) = drainLines h (b1 @ text2) st1 in (d2, b2, st2))"
    by (simp add: Cons.IH dec2)
  also have "drainLines h (b1 @ text2) st1 = drainLines h ((buffer @ text1) @ text2) st"
    using drainLines_append [of h "buffer @ text1" st text2] by (simp add: dr)
  finally show ?case
    by (simp add: dec dr dec2 decode_append)
qed

lemma feedLines_drain:
  "feedLines step flush d0 h chunks st0 =
     (let (d, text) = decode step d0 (concat chunks);
          (buffer, st) = drainLines h text st0;
          buffer1 = buffer @ flush d
      in if length buffer1 > 0 then h buffer1 st else st)"
  by (simp add: feedLines_def readLoop_drain split: prod.splits)

lemma feedLines_concat:
  "feedLines step flush d0 h chunks st0 = feedLines step flush d0 h [concat chunks] st0"
  by (simp add: feedLines_drain)

lemma drainLines_lines:
  "\<exists>ls. (\<forall>acc. drainLines (\<lambda>line acc. acc @ [line]) buffer acc =
                 (fst (drainLines h buffer st), acc @ ls)) \<and>
        snd (drainLines h buffer st) = foldl (\<lambda>s line. h line s) st ls"
proof (induction h buffer st rule: drainLines.induct)
  case (1 h buffer st)
  show ?case
  proof (cases "indexOf buffer LF")
    case None
    then have "LF \<notin> set buffer" by (simp add: indexOf_None)
    then have "(\<forall>acc. drainLines (\<lambda>line acc. acc @ [line]) buffer acc =
                 (fst (drainLines h buffer st), acc @ [])) \<and>
        snd (drainLines h buffer st) = foldl (\<lambda>s line. h line s) st []"
      by (simp add: drainLines_no_LF)
    then show ?thesis by blast
  next
    case (Some i)
    have e: "drainLines g buffer a = drainLines g (drop (i + 1) buffer) (g (take i buffer) a)"
      for g :: "string \<Rightarrow> 'b \<Rightarrow> 'b" and a
      by (subst drainLines.simps) (simp add: Some)
    from "1.IH" [OF Some] obtain ls where
      ls: "\<forall>acc. drainLines (\<lambda>line acc. acc @ [line]) (drop (i + 1) buffer) acc =
                 (fst (drainLines h (drop (i + 1) buffer) (h (take i buffer) st)), acc @ ls)"
        "snd (drainLines h (drop (i + 1) buffer) (h (take i buffer) st)) =
           foldl (\<lambda>s line. h line s) (h (take i buffer) st) ls"
      by blast
    have "(\<forall>acc. drainLines (\<lambda>line acc. acc @ [line]) buffer acc =
                 (fst (drainLines h buffer st), acc @ (take i buffer # ls))) \<and>
        snd (drainLines h buffer st) = foldl (\<lambda>s line. h line s) st (take i buffer # ls)"
      using ls by (simp add: e [of h] e [of "\<lambda>line acc. acc @ [line]"])
    then show ?thesis by blast
  qed
qed

lemma feedLines_decodedLines:
  "feedLines step flush d0 h chunks st0 =
     foldl (\<lambda>s line. h line s) st0 (decodedLines step flush d0 chunks)"
proof -
  obtain d decoded where dec: "decode step d0 (concat chunks) = (d, decoded)" by force
  from drainLines_lines [of decoded h st0] obtain ls where
    ls: "drainLines (\<lambda>line acc. acc @ [line]) decoded [] = (fst (drainLines h decoded st0), ls)"
        "snd (drainLines h decoded st0) = foldl (\<lambda>s line. h line s) st0 ls"
    by force
  obtain b st where dr: "drainLines h decoded st0 = (b, st)" by force
  show ?thesis
    using ls by (simp add: decodedLines_def feedLines_drain dec dr)
qed

subsection \<open>Events\<close>

lemma applyEvent_currentEvent:
  "applyEvent t p (st\<lparr>currentEvent := a\<rparr>) = (applyEvent t p st)\<lparr>currentEvent := a\<rparr>"
  by (simp add: applyEvent_def split: option.splits)

lemma applyEvent_dataLines:
  "applyEvent t p (st\<lparr>dataLines := b\<rparr>) = (applyEvent t p st)\<lparr>dataLines := b\<rparr>"
  by (simp add: applyEvent_def split: option.splits)

lemma foldEvents_currentEvent:
  "foldEvents evs (st\<lparr>currentEvent := a\<rparr>) = (foldEvents evs st)\<lparr>currentEvent := a\<rparr>"
  unfolding foldEvents_def
  by (induction evs arbitrary: st) (simp_all add: applyEvent_currentEvent)

lemma foldEvents_dataLines:
  "foldEvents evs (st\<lparr>dataLines := b\<rparr>) = (foldEvents evs st)\<lparr>dataLines := b\<rparr>"
  unfolding foldEvents_def
  by (induction evs arbitrary: st) (simp_all add: applyEvent_dataLines)

lemma foldEvents_append: "foldEvents (xs @ ys) st = foldEvents ys (foldEvents xs st)"
  by (simp add: foldEvents_def)

lemma emitEvent_foldEvents:
  "emitEvent st = (foldEvents (pendingRecord st) st)\<lparr>currentEvent := ''message'', dataLines := []\<rparr>"
  by (simp add: emitEvent_def pendingRecord_def foldEvents_def Let_def)

lemma handleLine_cases:
  "handleLine rawLine st =
     (if stripCR rawLine = [] then emitEvent st
      else if startsWith (stripCR rawLine) '':'' then st
      else if startsWith (stripCR rawLine) ''event:'' then st\<lparr>currentEvent := trim (drop 6 (stripCR rawLine))\<rparr>
      else if startsWith (stripCR rawLine) ''data:''
        then st\<lparr>dataLines := dataLines st @ [trimStart (drop 5 (stripCR rawLine))]\<rparr>
      else st)"
  by (simp add: handleLine_def Let_def)

lemma reset_idem:
  "(st\<lparr>currentEvent := a, dataLines := b\<rparr>)\<lparr>currentEvent := ''message'', dataLines := []\<rparr>
     = st\<lparr>currentEvent := ''message'', dataLines := []\<rparr>"
  by simp

lemma emit_after_lines:
  "emitEvent (foldl (\<lambda>s line. handleLine line s) st ls) =
     (foldEvents (emittedEvents ls st) st)\<lparr>currentEvent := ''message'', dataLines := []\<rparr>"
proof (induction ls arbitrary: st)
  case Nil
  then show ?case by (simp add: emitEvent_foldEvents)
next
  case (Cons l rest)
  have ih: "emitEvent (foldl (\<lambda>s line. handleLine line s) (handleLine l st) rest) =
     (foldEvents (emittedEvents rest (handleLine l st)) (handleLine l st))
       \<lparr>currentEvent := ''message'', dataLines := []\<rparr>"
    by (rule Cons.IH)
  show ?case
  proof (cases "stripCR l = []")
    case True
    then have h: "handleLine l st = emitEvent st" by (simp add: handleLine_cases)
    show ?thesis
      using True ih
      by (simp add: h foldEvents_append emitEvent_foldEvents [of st]
          foldEvents_currentEvent foldEvents_dataLines)
  next
    case False
    define a where "a = currentEvent (handleLine l st)"
    define b where "b = dataLines (handleLine l st)"
    have h: "handleLine l st = st\<lparr>currentEvent := a, dataLines := b\<rparr>"
      using False by (simp add: a_def b_def handleLine_cases)
    show ?thesis
      using False ih
      by (simp add: foldEvents_currentEvent foldEvents_dataLines h)
  qed
qed

lemma finishResult_reset:
  "finishResult (st\<lparr>currentEvent := a, dataLines := b\<rparr>) = finishResult st"
  by (simp add: finishResult_def split: option.splits)

lemma assembleLines_events:
  "assembleLines ls = finishResult (foldEvents (emittedEvents ls initialState) initialState)"
  by (simp add: assembleLines_def emit_after_lines finishResult_reset)

lemma foldEvents_Cons: "foldEvents (ev # evs) st = foldEvents evs (applyEvent (fst ev) (snd ev) st)"
  by (simp add: foldEvents_def)

lemma foldEvents_stdout:
  "acc_stdout (foldEvents evs st) = acc_stdout st @ accumulated ''stdout'' evs"
  by (induction evs arbitrary: st)
     (auto simp add: foldEvents_Cons accumulated_def applyEvent_def foldEvents_def split: option.splits)

lemma foldEvents_stderr:
  "acc_stderr (foldEvents evs st) = acc_stderr st @ accumulated ''stderr'' evs"
  by (induction evs arbitrary: st)
     (auto simp add: foldEvents_Cons accumulated_def applyEvent_def foldEvents_def split: option.splits)

lemma recordedExit_fold: "recordedExit evs = foldl exitStep None evs"
  by (simp add: recordedExit_def)

lemma foldEvents_exitCode:
  "acc_exitCode (foldEvents evs st) = foldl exitStep (acc_exitCode st) evs"
  by (induction evs arbitrary: st)
     (auto simp add: foldEvents_Cons exitStep_def applyEvent_def foldEvents_def split: option.splits)

lemma foldEvents_no_error:
  "\<forall>ev\<in>set evs. fst ev \<noteq> ''error'' \<Longrightarrow> pendingError (foldEvents evs st) = pendingError st"
  by (induction evs arbitrary: st)
     (auto simp add: foldEvents_Cons applyEvent_def foldEvents_def split: option.splits)

lemma exit_fold_Some:
  "foldl exitStep a evs = Some c \<Longrightarrow>
     a = Some c \<or> (\<exists>p. (''exit'', p) \<in> set evs \<and> parseInt p = Some c)"
proof (induction evs arbitrary: a)
  case Nil
  then show ?case by simp
next
  case (Cons ev evs)
  from Cons.IH [OF Cons.prems [simplified]] show ?case
    by (cases ev) (auto simp add: exitStep_def split: if_splits option.splits)
qed

lemma exit_fold_None:
  "foldl exitStep a evs = None \<longleftrightarrow>
     a = None \<and> (\<forall>ev\<in>set evs. fst ev = ''exit'' \<longrightarrow> parseInt (snd ev) = None)"
  by (induction evs arbitrary: a) (auto simp add: exitStep_def split: option.splits)

text \<open>
  C3. When no event of type \<open>error\<close> is emitted: if no exit event with a payload that
  parses as an integer is among the events, the assembly fails with the message that the
  stream ended without exit event; otherwise it returns the concatenated payloads of the
  stdout events, those of the stderr events, and the exit code recorded, which is the
  integer parsed from the payload of an emitted exit event (never a made-up 0). The same
  holds for \<open>parseSseResult\<close> on chunks that decode to these lines.
\<close>

theorem assembleLines_without_error_event:
  assumes "\<forall>ev\<in>set (emittedEvents ls initialState). fst ev \<noteq> ''error''"
  shows "let evs = emittedEvents ls initialState in
           assembleLines ls =
             (case recordedExit evs of
                None \<Rightarrow> Inl (Error ''ISLO exec stream ended without exit event'')
              | Some code \<Rightarrow>
                  Inr \<lparr>stdout = accumulated ''stdout'' evs, stderr = accumulated ''stderr'' evs,
                       exitCode = code\<rparr>) \<and>
           (recordedExit evs = None \<longleftrightarrow>
              (\<forall>ev\<in>set evs. fst ev = ''exit'' \<longrightarrow> parseInt (snd ev) = None)) \<and>
           (\<forall>c. recordedExit evs = Some c \<longrightarrow>
              (\<exists>p. (''exit'', p) \<in> set evs \<and> parseInt p = Some c)) \<and>
           (ls = decodedLines step flush d0 chunks \<longrightarrow>
              parseSseResult step flush d0 chunks = assembleLines ls)"
proof -
  define evs where "evs = emittedEvents ls initialState"
  have pe: "pendingError (foldEvents evs initialState) = None"
    using assms by (simp add: evs_def foldEvents_no_error initialState_def)
  have ex: "acc_exitCode (foldEvents evs initialState) = recordedExit evs"
    by (simp add: foldEvents_exitCode recordedExit_fold initialState_def)
  have out: "acc_stdout (foldEvents evs initialState) = accumulated ''stdout'' evs"
    by (simp add: foldEvents_stdout initialState_def)
  have err: "acc_stderr (foldEvents evs initialState) = accumulated ''stderr'' evs"
    by (simp add: foldEvents_stderr initialState_def)
  have a: "assembleLines ls =
             (case recordedExit evs of
                None \<Rightarrow> Inl (Error ''ISLO exec stream ended without exit event'')
              | Some code \<Rightarrow>
                  Inr \<lparr>stdout = accumulated ''stdout'' evs, stderr = accumulated ''stderr'' evs,
                       exitCode = code\<rparr>)"
    by (simp add: assembleLines_events evs_def [symmetric] finishResult_def pe ex out err truthy_def
        split: option.splits)
  have b: "recordedExit evs = None \<longleftrightarrow>
              (\<forall>ev\<in>set evs. fst ev = ''exit'' \<longrightarrow> parseInt (snd ev) = None)"
    by (simp add: recordedExit_fold exit_fold_None)
  have c: "\<forall>c. recordedExit evs = Some c \<longrightarrow>
              (\<exists>p. (''exit'', p) \<in> set evs \<and> parseInt p = Some c)"
    using exit_fold_Some [of None evs] by (simp add: recordedExit_fold)
  have d: "ls = decodedLines step flush d0 chunks \<longrightarrow>
              parseSseResult step flush d0 chunks = assembleLines ls"
    by (simp add: parseSseResult_def assembleLines_def feedLines_decodedLines)
  show ?thesis
    unfolding Let_def evs_def [symmetric] using a b c d by blast
qed

theorem assembleLines_without_error_event_witness:
  "assembleLines outputThenExit =
     Inr \<lparr>stdout = ''hi'' @ [LF] @ ''there'', stderr = ''oops'', exitCode = 3\<rparr> \<and>
   recordedExit (emittedEvents outputThenExit initialState) = Some 3"
proof -
  have ev: "emittedEvents outputThenExit initialState =
      [(''stdout'', ''hi'' @ [LF] @ ''there''), (''stderr'', ''oops''), (''exit'', ''3'')]"
    by code_simp
  have h: "\<forall>ev\<in>set (emittedEvents outputThenExit initialState). fst ev \<noteq> ''error''"
    unfolding ev by simp
  have r: "recordedExit [(''stdout'', ''hi'' @ [LF] @ ''there''), (''stderr'', ''oops''), (''exit'', ''3'')]
      = Some 3"
    by code_simp
  from assembleLines_without_error_event
         [OF h, where step = asciiStep and flush = asciiFlush and ?d0.0 = "()" and chunks = "[]"]
  show ?thesis
    unfolding Let_def ev r by (simp add: accumulated_def)
qed

text \<open>
  C4. However the bytes of a stream are cut into chunks, the lines handed to the line
  handler and the assembled result are those of the whole byte sequence delivered as one
  chunk, in particular for a cut into two chunks at any offset \<open>n\<close>; and the result is
  the assembly of the decoded lines, so its exit code does not depend on the chunking
  either. This holds for every streaming decoder.
\<close>

theorem parseSseResult_chunking_invariant:
  "decodedLines step flush d0 chunks = decodedLines step flush d0 [concat chunks] \<and>
   parseSseResult step flush d0 chunks = parseSseResult step flush d0 [concat chunks] \<and>
   parseSseResult step flush d0 chunks = assembleLines (decodedLines step flush d0 chunks) \<and>
   decodedLines step flush d0 [take n bytes, drop n bytes] = decodedLines step flush d0 [bytes] \<and>
   parseSseResult step flush d0 [take n bytes, drop n bytes] = parseSseResult step flush d0 [bytes]"
proof -
  have a: "decodedLines step flush d0 cs = decodedLines step flush d0 [concat cs]" for cs
    unfolding decodedLines_def by (rule feedLines_concat)
  have b: "parseSseResult step flush d0 cs = parseSseResult step flush d0 [concat cs]" for cs
    unfolding parseSseResult_def by (subst feedLines_concat) (rule refl)
  have c: "parseSseResult step flush d0 chunks = assembleLines (decodedLines step flush d0 chunks)"
    by (simp add: parseSseResult_def assembleLines_def feedLines_decodedLines)
  show ?thesis
    using a [of chunks] b [of chunks] c a [of "[take n bytes, drop n bytes]"]
      b [of "[take n bytes, drop n bytes]"]
    by simp
qed

theorem parseSseResult_chunking_invariant_witness:
  "decodedLines asciiStep asciiFlush ()
     [take 19 (streamBytes outputThenExit), drop 19 (streamBytes outputThenExit)] =
     outputThenExit \<and>
   parseSseResult asciiStep asciiFlush ()
     [take 19 (streamBytes outputThenExit), drop 19 (streamBytes outputThenExit)] =
     Inr \<lparr>stdout = ''hi'' @ [LF] @ ''there'', stderr = ''oops'', exitCode = 3\<rparr>"
proof -
  have one: "decodedLines asciiStep asciiFlush () [streamBytes outputThenExit] = outputThenExit"
    by code_simp
  have res: "parseSseResult asciiStep asciiFlush () [streamBytes outputThenExit] =
     Inr \<lparr>stdout = ''hi'' @ [LF] @ ''there'', stderr = ''oops'', exitCode = 3\<rparr>"
    by code_simp
  from parseSseResult_chunking_invariant
         [where step = asciiStep and flush = asciiFlush and ?d0.0 = "()" and n = 19
            and bytes = "streamBytes outputThenExit" and chunks = "[]"]
  show ?thesis
    by (simp only: one res)
qed

text \<open>
  What does hold of error events: when at least one is emitted and none has an empty
  payload, the assembly fails with the payloads joined by line feeds.
\<close>

lemma join_Cons: "ys \<noteq> [] \<Longrightarrow> join (x # ys) sep = x @ sep @ join ys sep"
  by (cases ys) simp_all

lemma foldEvents_errors:
  assumes "\<forall>p\<in>set (errorPayloads evs). p \<noteq> []"
  shows "pendingError (foldEvents evs st) =
           (if errorPayloads evs = [] then pendingError st
            else Some ((if truthy (pendingError st) then the (pendingError st) @ [LF] else [])
                       @ join (errorPayloads evs) [LF]))"
  using assms
proof (induction evs arbitrary: st)
  case Nil
  then show ?case by (simp add: foldEvents_def errorPayloads_def)
next
  case (Cons ev evs)
  have step: "foldEvents (ev # evs) st = foldEvents evs (applyEvent (fst ev) (snd ev) st)"
    by (simp add: foldEvents_def)
  have ih: "pendingError (foldEvents evs st') =
           (if errorPayloads evs = [] then pendingError st'
            else Some ((if truthy (pendingError st') then the (pendingError st') @ [LF] else [])
                       @ join (errorPayloads evs) [LF]))" for st'
    using Cons.prems by (intro Cons.IH) (simp add: errorPayloads_def)
  show ?case
  proof (cases "fst ev = ''error''")
    case False
    then have "pendingError (applyEvent (fst ev) (snd ev) st) = pendingError st"
      by (simp add: applyEvent_def split: option.splits)
    moreover from False have "errorPayloads (ev # evs) = errorPayloads evs"
      by (simp add: errorPayloads_def)
    ultimately show ?thesis by (simp add: step ih)
  next
    case True
    then have e: "errorPayloads (ev # evs) = snd ev # errorPayloads evs"
      by (simp add: errorPayloads_def)
    with Cons.prems have ne: "snd ev \<noteq> []" by simp
    from True have p: "pendingError (applyEvent (fst ev) (snd ev) st) =
       Some (if truthy (pendingError st) then the (pendingError st) @ [LF] @ snd ev else snd ev)"
      by (simp add: applyEvent_def)
    have t: "truthy (pendingError (applyEvent (fst ev) (snd ev) st))"
      using ne by (simp add: p truthy_def)
    show ?thesis
      using ne by (cases "errorPayloads evs = []") (simp_all add: step ih e p truthy_def join_Cons)
  qed
qed

lemma assembleLines_error_events:
  assumes "errorPayloads (emittedEvents ls initialState) \<noteq> []"
    and "\<forall>p\<in>set (errorPayloads (emittedEvents ls initialState)). p \<noteq> []"
  shows "assembleLines ls =
           Inl (Error (''ISLO exec stream error: '' @
                       join (errorPayloads (emittedEvents ls initialState)) [LF]))"
proof -
  define evs where "evs = emittedEvents ls initialState"
  have i: "pendingError initialState = None"
    by (simp add: initialState_def)
  have pe: "pendingError (foldEvents evs initialState) = Some (join (errorPayloads evs) [LF])"
    using assms unfolding evs_def [symmetric] by (simp add: foldEvents_errors i truthy_def)
  obtain p ps where ps: "errorPayloads evs = p # ps"
    using assms(1) by (cases "errorPayloads evs") (simp_all add: evs_def)
  then have "p \<noteq> []" using assms(2) by (simp add: evs_def [symmetric])
  then have "join (errorPayloads evs) [LF] \<noteq> []"
    unfolding ps by (cases ps) simp_all
  then show ?thesis
    by (simp add: assembleLines_events evs_def [symmetric] finishResult_def pe truthy_def)
qed

text \<open>
  C2 (fails on the code). The claim: a stream with an emitted \<open>error\<close> event never
  gives a result. The lines below emit an \<open>error\<close> event with an empty payload and then
  a valid \<open>exit\<close> event; the accumulated error text is the empty string, which the final
  test \<open>if (pendingError)\<close> takes for no error, and the assembly returns a result with
  exit code 0, from the lines as well as from the bytes in one chunk.
\<close>

theorem assembleLines_empty_error_event:
  "emittedEvents errorThenExit initialState = [(''error'', []), (''exit'', ''0'')] \<and>
   assembleLines errorThenExit = Inr \<lparr>stdout = [], stderr = [], exitCode = 0\<rparr> \<and>
   decodedLines asciiStep asciiFlush () [streamBytes errorThenExit] = errorThenExit \<and>
   parseSseResult asciiStep asciiFlush () [streamBytes errorThenExit] =
     Inr \<lparr>stdout = [], stderr = [], exitCode = 0\<rparr>"
  by code_simp

subsection \<open>Data lines\<close>

lemma startsWith_data:
  assumes "startsWith l ''data:''"
  shows "l \<noteq> []" and "\<not> startsWith l '':''" and "\<not> startsWith l ''event:''"
proof -
  from assms have t: "take 5 l = ''data:''" by (simp add: startsWith_def eval_nat_numeral)
  then show "l \<noteq> []" by auto
  have "take 1 l = take 1 (take 5 l)" by simp
  also have "\<dots> = ''d''" unfolding t by simp
  finally show "\<not> startsWith l '':''" by (simp add: startsWith_def)
  have "take 5 (take 6 l) = take 5 l" by simp
  then have "take 6 l = ''event:'' \<Longrightarrow> take 5 l = take 5 ''event:''" by metis
  then show "\<not> startsWith l ''event:''" using t by (auto simp add: startsWith_def eval_nat_numeral)
qed

lemma handleLine_data:
  assumes "startsWith (stripCR rawLine) ''data:''"
  shows "handleLine rawLine st =
           st\<lparr>dataLines := dataLines st @ [trimStart (drop 5 (stripCR rawLine))]\<rparr>"
  using assms startsWith_data [OF assms] by (simp add: handleLine_def Let_def)

lemma handleLine_run_of_data:
  assumes "\<forall>l\<in>set ds. startsWith (stripCR l) ''data:''"
  shows "foldl (\<lambda>s l. handleLine l s) st ds =
           st\<lparr>dataLines := dataLines st @ map (\<lambda>l. trimStart (drop 5 (stripCR l))) ds\<rparr>"
  using assms by (induction ds arbitrary: st) (simp_all add: handleLine_data)

lemma trimStart_split:
  "(\<exists>ws. s = ws @ trimStart s \<and> list_all isWhiteSpace ws) \<and>
   (trimStart s = [] \<or> \<not> isWhiteSpace (hd (trimStart s)))"
proof -
  have "s = takeWhile isWhiteSpace s @ trimStart s" by (simp add: trimStart_def)
  moreover have "list_all isWhiteSpace (takeWhile isWhiteSpace s)"
    by (simp add: list_all_iff) (meson set_takeWhileD)
  ultimately have "\<exists>ws. s = ws @ trimStart s \<and> list_all isWhiteSpace ws" by blast
  moreover have "trimStart s = [] \<or> \<not> isWhiteSpace (hd (trimStart s))"
    unfolding trimStart_def using hd_dropWhile [of isWhiteSpace s] by blast
  ultimately show ?thesis by blast
qed

lemma handleLine_blank:
  assumes "dataLines st \<noteq> []"
  shows "handleLine [] st =
           (applyEvent (currentEvent st) (join (dataLines st) [LF]) st)
             \<lparr>currentEvent := ''message'', dataLines := []\<rparr>"
  using assms by (simp add: handleLine_def stripCR_def endsWith_def emitEvent_def Let_def)

text \<open>
  C5 (amended). For a line that begins with \<open>data:\<close> (after the trailing carriage
  return is dropped), the string appended to the buffered data lines is the remainder
  after \<open>data:\<close> with all its leading white space stripped: the remainder is some white
  space followed by the appended string, which is empty or begins with a character that is
  no white space. A run of such lines appends their stripped remainders in order, and the
  blank line after them emits the buffered lines joined with a single line feed.
\<close>

theorem handleLine_data_line:
  assumes "startsWith (stripCR rawLine) ''data:''"
  shows "(let rest = drop 5 (stripCR rawLine) in
           handleLine rawLine st = st\<lparr>dataLines := dataLines st @ [trimStart rest]\<rparr> \<and>
           (\<exists>ws. rest = ws @ trimStart rest \<and> list_all isWhiteSpace ws) \<and>
           (trimStart rest = [] \<or> \<not> isWhiteSpace (hd (trimStart rest)))) \<and>
         (\<forall>ds. (\<forall>l\<in>set ds. startsWith (stripCR l) ''data:'') \<longrightarrow>
            foldl (\<lambda>s l. handleLine l s) st ds =
              st\<lparr>dataLines := dataLines st @ map (\<lambda>l. trimStart (drop 5 (stripCR l))) ds\<rparr>) \<and>
         (\<forall>st'. dataLines st' \<noteq> [] \<longrightarrow>
            handleLine [] st' =
              (applyEvent (currentEvent st') (join (dataLines st') [LF]) st')
                \<lparr>currentEvent := ''message'', dataLines := []\<rparr>) \<and>
         (\<forall>x y ys. join [x] [LF] = x \<and> join (x # y # ys) [LF] = x @ [LF] @ join (y # ys) [LF])"
  unfolding Let_def
  using handleLine_data [OF assms, of st] trimStart_split [of "drop 5 (stripCR rawLine)"]
    handleLine_run_of_data [of _ st] handleLine_blank
  by simp

text \<open>
  C5 as stated fails: the line \<open>data:  x\<close>, with two spaces, contributes \<open>x\<close>, not
  the remainder with one space stripped.
\<close>

theorem handleLine_data_line_counterexample:
  "startsWith (stripCR ''data:  x'') ''data:'' \<and>
   dataLines (handleLine ''data:  x'' initialState) = [''x''] \<and>
   spec_stripOneSpace (drop 5 (stripCR ''data:  x'')) = '' x'' \<and>
   dataLines (handleLine ''data:  x'' initialState)
     \<noteq> dataLines initialState @ [spec_stripOneSpace (drop 5 (stripCR ''data:  x''))]"
  by code_simp

theorem handleLine_data_line_witness:
  "handleLine ''data:  x'' initialState = initialState\<lparr>dataLines := [''x'']\<rparr> \<and>
   foldl (\<lambda>s l. handleLine l s) initialState [''data: a'', ''data:b'' @ [CR], []] =
     initialState\<lparr>acc_stdout := []\<rparr>"
proof -
  have h: "startsWith (stripCR ''data:  x'') ''data:''" by code_simp
  have e: "trimStart (drop 5 (stripCR ''data:  x'')) = ''x''" by code_simp
  have i: "dataLines initialState = []" by (simp add: initialState_def)
  have f: "foldl (\<lambda>s l. handleLine l s) initialState [''data: a'', ''data:b'' @ [CR], []] =
     initialState\<lparr>acc_stdout := []\<rparr>" by code_simp
  from handleLine_data_line [OF h, of initialState] show ?thesis
    unfolding Let_def e i f by simp
qed

section \<open>Properties of the iteration\<close>

subsection \<open>Checked commands\<close>

lemma truncate_length: "length (truncate_str d 220) \<le> 220"
  by (simp add: truncate_str_def slice0_def)

lemma truncate_short: "length d \<le> 220 \<Longrightarrow> truncate_str d 220 = d"
  by (simp add: truncate_str_def)

lemma truncate_long: "length d > 220 \<Longrightarrow> truncate_str d 220 = take 217 d @ ''...''"
  by (simp add: truncate_str_def slice0_def)

text \<open>
  C6 (amended). When the command's result has an exit code other than 0,
  \<open>runCheckedCommand\<close> rejects, and so does the race around it, with the message
  \<open>prefix (exit code)\<close>, followed, when the trimmed stderr (or, that being empty or
  absent, the trimmed stdout) is not empty, by a colon, a space and that text cut by
  \<open>truncate\<close> to at most 220 characters: the text itself when it has at most 220
  characters, else its first 217 characters and three dots. The head of the text is kept.
\<close>

theorem runCheckedCommand_nonzero_exit:
  assumes "r_exitCode r \<noteq> 0"
  shows "(let stderr1 = map_option trim (r_stderr r);
              stdout1 = map_option trim (r_stdout r);
              detail = (if truthy stderr1 then stderr1 else stdout1);
              head = failurePrefix @ '' (exit '' @ numberText (r_exitCode r) @ '')'';
              message = (if truthy detail then head @ '': '' @ truncate_str (the detail) 220 else head)
          in runCheckedCommand (Resolved r) failurePrefix = Rejected (Error message) \<and>
             withTimeout (runCheckedCommand (Resolved r) failurePrefix) ms timeoutMessage =
               Inl (Error message)) \<and>
         (\<forall>d. length (truncate_str d 220) \<le> 220 \<and>
              (length d \<le> 220 \<longrightarrow> truncate_str d 220 = d) \<and>
              (length d > 220 \<longrightarrow> truncate_str d 220 = take 217 d @ ''...''))"
  using assms truncate_length truncate_short truncate_long
  by (simp add: runCheckedCommand_def withTimeout_def Let_def)

theorem runCheckedCommand_nonzero_exit_witness:
  "runCheckedCommand (Resolved boomRun) ''Workload command failed'' =
     Rejected (Error ''Workload command failed (exit 2): boom'') \<and>
   withTimeout (runCheckedCommand (Resolved boomRun) ''Workload command failed'') 300000
     ''Workload command timed out'' = Inl (Error ''Workload command failed (exit 2): boom'')"
proof -
  have h: "r_exitCode boomRun \<noteq> 0"
    by (simp add: boomRun_def)
  have m: "(let stderr1 = map_option trim (r_stderr boomRun);
              stdout1 = map_option trim (r_stdout boomRun);
              detail = (if truthy stderr1 then stderr1 else stdout1);
              head = ''Workload command failed'' @ '' (exit '' @ numberText (r_exitCode boomRun) @ '')''
          in (if truthy detail then head @ '': '' @ truncate_str (the detail) 220 else head)) =
        ''Workload command failed (exit 2): boom''"
    by code_simp
  have "runCheckedCommand (Resolved boomRun) ''Workload command failed'' =
          Rejected (Error (let stderr1 = map_option trim (r_stderr boomRun);
              stdout1 = map_option trim (r_stdout boomRun);
              detail = (if truthy stderr1 then stderr1 else stdout1);
              head = ''Workload command failed'' @ '' (exit '' @ numberText (r_exitCode boomRun) @ '')''
          in (if truthy detail then head @ '': '' @ truncate_str (the detail) 220 else head))) \<and>
        withTimeout (runCheckedCommand (Resolved boomRun) ''Workload command failed'') 300000
          ''Workload command timed out'' =
          Inl (Error (let stderr1 = map_option trim (r_stderr boomRun);
              stdout1 = map_option trim (r_stdout boomRun);
              detail = (if truthy stderr1 then stderr1 else stdout1);
              head = ''Workload command failed'' @ '' (exit '' @ numberText (r_exitCode boomRun) @ '')''
          in (if truthy detail then head @ '': '' @ truncate_str (the detail) 220 else head)))"
    using runCheckedCommand_nonzero_exit
         [OF h, where failurePrefix = "''Workload command failed''" and ms = 300000
            and timeoutMessage = "''Workload command timed out''"]
    unfolding Let_def by blast
  then show ?thesis
    unfolding m .
qed

text \<open>
  C6 as stated fails: with a stderr of 220 letters \<open>a\<close> and a final \<open>b\<close>, the message
  carries the first 217 letters and three dots, which is no tail of the stderr.
\<close>

theorem runCheckedCommand_nonzero_exit_counterexample:
  "runCheckedCommand (Resolved failedRun) ''Workload setup failed'' =
     Rejected (Error (''Workload setup failed (exit 1): '' @ replicate 217 (CHR ''a'') @ ''...'')) \<and>
   \<not> endsWith longStderr (replicate 217 (CHR ''a'') @ ''...'')"
  by code_simp

subsection \<open>Teardown\<close>

lemma commandCall_not_destroy: "\<not> isDestroy (commandCall c d s m)"
  by (simp add: commandCall_def)

lemma tryBlock_calls: "filter isDestroy (snd (snd (tryBlock w timeout workload))) = []"
  by (simp add: tryBlock_def Let_def commandCall_not_destroy split: sum.splits prod.splits)

lemma tryBlock_sandbox:
  "createOutcome w = Resolved sb \<Longrightarrow> fst (snd (tryBlock w timeout workload)) = Some sb"
  by (simp add: tryBlock_def Let_def withTimeout_def split: sum.splits prod.splits)

lemma tryBlock_destroyOutcome:
  "tryBlock (w\<lparr>destroyOutcome := d\<rparr>) timeout workload = tryBlock w timeout workload"
  by (simp add: tryBlock_def Let_def cong: sum.case_cong prod.case_cong if_cong)

lemma runIteration_created:
  assumes "createOutcome w = Resolved sb"
  shows "runIteration w timeout workload =
           (fst (tryBlock w timeout workload),
            snd (snd (tryBlock w timeout workload)) @ [Destroy 15000])"
  using tryBlock_sandbox [OF assms, of timeout workload]
  by (cases "tryBlock w timeout workload")
     (simp add: runIteration_def split: sum.splits)

lemma iterationSample_destroyOutcome:
  assumes "createOutcome w = Resolved sb"
  shows "fst (runIteration (w\<lparr>destroyOutcome := d\<rparr>) timeout workload) =
           fst (runIteration w timeout workload)"
proof -
  have "createOutcome (w\<lparr>destroyOutcome := d\<rparr>) = Resolved sb"
    using assms by simp
  from runIteration_created [OF this] runIteration_created [OF assms] show ?thesis
    by (simp add: tryBlock_destroyOutcome)
qed

text \<open>
  C7. When the sandbox was created: the calls of the iteration contain exactly one
  \<open>destroy\<close>, raced against 15000 ms, and it is the last call, on every path through
  the \<open>try\<close> block; what the iteration returns or throws is the outcome of the \<open>try\<close>
  block, and it is the same whatever \<open>destroy\<close> does (resolve, reject, or stay pending
  until the timer fires), as is the sample that the loop of \<open>runBenchmark\<close> records.
\<close>

theorem runIteration_destroys_once:
  assumes "createOutcome w = Resolved sb"
  shows "filter isDestroy (snd (runIteration w timeout workload)) = [Destroy 15000] \<and>
         last (snd (runIteration w timeout workload)) = Destroy 15000 \<and>
         fst (runIteration w timeout workload) = fst (tryBlock w timeout workload) \<and>
         (\<forall>d. fst (runIteration (w\<lparr>destroyOutcome := d\<rparr>) timeout workload) =
                fst (runIteration w timeout workload)) \<and>
         (\<forall>d. iterationSample (w\<lparr>destroyOutcome := d\<rparr>) timeout workload =
                iterationSample w timeout workload)"
  using iterationSample_destroyOutcome [OF assms]
  by (simp add: runIteration_created [OF assms] tryBlock_calls iterationSample_def)

lemma setupFailsWorld_run:
  "runIteration setupFailsWorld 120000 (Some setupOnly) =
     (Inl (Error ''Workload setup failed (exit 1)''),
      [Create 120000, RunCommand SMOKE_COMMAND None 30 30000,
       RunCommand ''npm ci'' None 300 300000, Destroy 15000])"
proof -
  have s: "numberText 1 = ''1''"
    by code_simp
  have c: "\<lceil>300 :: real\<rceil> = 300"
    by simp
  show ?thesis
    by (simp add: runIteration_def tryBlock_def setupFailsWorld_def setupOnly_def Let_def
        withTimeout_def runCheckedCommand_def okRun_def exitOneRun_def truthy_def trim_def
        trimStart_def trimEnd_def setupCommandOf_def commandOf_def cwdOf_def workloadTimeout_def
        commandCall_def msToSeconds_def s c)
qed

theorem runIteration_destroys_once_witness:
  "filter isDestroy (snd (runIteration setupFailsWorld 120000 (Some setupOnly))) = [Destroy 15000] \<and>
   fst (runIteration setupFailsWorld 120000 (Some setupOnly)) =
     Inl (Error ''Workload setup failed (exit 1)'') \<and>
   iterationSample (setupFailsWorld\<lparr>destroyOutcome := Rejected (Error ''gone'')\<rparr>) 120000
       (Some setupOnly) =
     \<lparr>ttiMs = 0, workloadMs = None, totalMs = None,
      error = Some ''Workload setup failed (exit 1)''\<rparr>"
proof -
  have h: "createOutcome setupFailsWorld = Resolved ()"
    by (simp add: setupFailsWorld_def)
  have i: "iterationSample setupFailsWorld 120000 (Some setupOnly) =
     \<lparr>ttiMs = 0, workloadMs = None, totalMs = None,
      error = Some ''Workload setup failed (exit 1)''\<rparr>"
    by (simp add: iterationSample_def setupFailsWorld_run)
  from runIteration_destroys_once [OF h, of 120000 "Some setupOnly"] show ?thesis
    by (simp add: i setupFailsWorld_run)
qed

subsection \<open>Workload timings\<close>

lemma runChecked_ok:
  "r_exitCode r = 0 \<Longrightarrow> runCheckedCommand (Resolved r) p = Resolved ()"
  by (simp add: runCheckedCommand_def)

lemma tryBlock_setup_only:
  assumes "truthy (setupCommandOf workload)" "\<not> truthy (commandOf workload)"
          "createOutcome w = Resolved sb"
          "runOutcome w 0 = Resolved r0" "r_exitCode r0 = 0"
          "runOutcome w 1 = Resolved r1" "r_exitCode r1 = 0"
  shows "tryBlock w timeout workload =
           (Inr \<lparr>ttiMs = now w 1 - now w 0,
                 workloadMs = Some (now w 3 - now w 2),
                 totalMs = Some (now w 4 - now w 0),
                 error = None\<rparr>,
            Some sb,
            [Create timeout,
             commandCall SMOKE_COMMAND None 30 30000,
             commandCall (the (setupCommandOf workload)) (cwdOf workload)
               (msToSeconds (workloadTimeout workload)) (workloadTimeout workload)])"
  using assms by (simp add: tryBlock_def Let_def withTimeout_def runChecked_ok)

lemma tryBlock_bare:
  "fst (tryBlock w timeout workload) = Inr s \<Longrightarrow>
     (workloadMs s = None \<and> totalMs s = None) \<longleftrightarrow>
     (\<not> truthy (setupCommandOf workload) \<and> \<not> truthy (commandOf workload))"
  by (auto simp add: tryBlock_def Let_def split: sum.splits prod.splits if_splits)

lemma runIteration_fst: "fst (runIteration w timeout workload) = fst (tryBlock w timeout workload)"
  by (cases "tryBlock w timeout workload")
     (simp add: runIteration_def split: sum.splits option.splits)

text \<open>
  C10. With a setup command and no workload command (each counted as present when it is
  a non-empty string, which is what the code tests), and with the creation, the smoke
  command and the setup succeeding, the iteration makes three calls before the
  destruction (creation, smoke command, setup command: no workload command runs) and
  returns a sample with \<open>workloadMs\<close>, from the clock readings around the setup, and
  \<open>totalMs\<close>. And a sample returned by any iteration lacks both \<open>workloadMs\<close> and
  \<open>totalMs\<close> exactly when the configuration has neither a setup command nor a
  workload command.
\<close>

theorem runIteration_setup_only:
  assumes "truthy (setupCommandOf workload)" and "\<not> truthy (commandOf workload)"
    and "createOutcome w = Resolved sb"
    and "runOutcome w 0 = Resolved r0" and "r_exitCode r0 = 0"
    and "runOutcome w 1 = Resolved r1" and "r_exitCode r1 = 0"
  shows "runIteration w timeout workload =
           (Inr \<lparr>ttiMs = now w 1 - now w 0,
                 workloadMs = Some (now w 3 - now w 2),
                 totalMs = Some (now w 4 - now w 0),
                 error = None\<rparr>,
            [Create timeout,
             commandCall SMOKE_COMMAND None 30 30000,
             commandCall (the (setupCommandOf workload)) (cwdOf workload)
               (msToSeconds (workloadTimeout workload)) (workloadTimeout workload),
             Destroy 15000]) \<and>
         (\<forall>(w' :: 'sb World) timeout' workload' s.
            fst (runIteration w' timeout' workload') = Inr s \<longrightarrow>
            ((workloadMs s = None \<and> totalMs s = None) \<longleftrightarrow>
             (\<not> truthy (setupCommandOf workload') \<and> \<not> truthy (commandOf workload'))))"
proof -
  have "runIteration w timeout workload =
           (fst (tryBlock w timeout workload),
            snd (snd (tryBlock w timeout workload)) @ [Destroy 15000])"
    using assms(3) by (rule runIteration_created)
  then have a: "runIteration w timeout workload =
           (Inr \<lparr>ttiMs = now w 1 - now w 0,
                 workloadMs = Some (now w 3 - now w 2),
                 totalMs = Some (now w 4 - now w 0),
                 error = None\<rparr>,
            [Create timeout,
             commandCall SMOKE_COMMAND None 30 30000,
             commandCall (the (setupCommandOf workload)) (cwdOf workload)
               (msToSeconds (workloadTimeout workload)) (workloadTimeout workload),
             Destroy 15000])"
    by (simp add: tryBlock_setup_only [OF assms])
  have b: "(workloadMs s = None \<and> totalMs s = None) \<longleftrightarrow>
             (\<not> truthy (setupCommandOf workload') \<and> \<not> truthy (commandOf workload'))"
    if "fst (runIteration w' timeout' workload') = Inr s"
    for w' :: "'sb World" and timeout' workload' s
    using that tryBlock_bare [of w' timeout' workload' s] by (simp add: runIteration_fst)
  from a b show ?thesis
    by blast
qed

theorem runIteration_setup_only_witness:
  "runIteration calmWorld 120000 (Some setupOnly) =
     (Inr \<lparr>ttiMs = 100, workloadMs = Some 100, totalMs = Some 400, error = None\<rparr>,
      [Create 120000, RunCommand SMOKE_COMMAND None 30 30000,
       RunCommand ''npm ci'' None 300 300000, Destroy 15000])"
proof -
  have h1: "truthy (setupCommandOf (Some setupOnly))"
    by (simp add: setupCommandOf_def setupOnly_def truthy_def)
  have h2: "\<not> truthy (commandOf (Some setupOnly))"
    by (simp add: commandOf_def setupOnly_def truthy_def)
  have h3: "createOutcome calmWorld = Resolved ()"
    by (simp add: calmWorld_def)
  have h4: "runOutcome calmWorld 0 = Resolved okRun" "runOutcome calmWorld 1 = Resolved okRun"
    by (simp_all add: calmWorld_def)
  have h5: "r_exitCode okRun = 0"
    by (simp add: okRun_def)
  have c: "\<lceil>300 :: real\<rceil> = 300"
    by simp
  from runIteration_setup_only [OF h1 h2 h3 h4(1) h5 h4(2) h5, of 120000]
  have "runIteration calmWorld 120000 (Some setupOnly) =
           (Inr \<lparr>ttiMs = now calmWorld 1 - now calmWorld 0,
                 workloadMs = Some (now calmWorld 3 - now calmWorld 2),
                 totalMs = Some (now calmWorld 4 - now calmWorld 0),
                 error = None\<rparr>,
            [Create 120000,
             commandCall SMOKE_COMMAND None 30 30000,
             commandCall (the (setupCommandOf (Some setupOnly))) (cwdOf (Some setupOnly))
               (msToSeconds (workloadTimeout (Some setupOnly))) (workloadTimeout (Some setupOnly)),
             Destroy 15000])"
    by blast
  also have "\<dots> =
     (Inr \<lparr>ttiMs = 100, workloadMs = Some 100, totalMs = Some 400, error = None\<rparr>,
      [Create 120000, RunCommand SMOKE_COMMAND None 30 30000,
       RunCommand ''npm ci'' None 300 300000, Destroy 15000])"
    by (simp add: calmWorld_def setupOnly_def setupCommandOf_def cwdOf_def workloadTimeout_def
        commandCall_def msToSeconds_def truthy_def c)
  finally show ?thesis .
qed

end
